theory Spec2Isabelle
  imports Complex_Main
begin

section \<open>Characters and strings\<close>

text \<open>
  A Python \<^verbatim>\<open>str\<close> is modelled as a \<^typ>\<open>string\<close>, a list of 8-bit characters, and a
  character stands for the code point of the same number. The texts covered are therefore
  those whose code points lie below 256. On these, the predicates below are the ones that
  \<^verbatim>\<open>re\<close> and the \<^verbatim>\<open>str\<close> methods use: \<^verbatim>\<open>\s\<close> and \<^verbatim>\<open>str.strip\<close> take the code points
  9 to 13, 28 to 32, 133 and 160 as white space, \<^verbatim>\<open>\d\<close> takes the digits 0 to 9, and lower
  casing moves A to Z and the upper case letters of Latin-1 (192 to 222 without 215) up
  by 32.
\<close>

definition is_space :: "char \<Rightarrow> bool" where
  "is_space c =
     (let n = (of_char c :: nat)
      in (9 \<le> n \<and> n \<le> 13) \<or> (28 \<le> n \<and> n \<le> 32) \<or> n = 133 \<or> n = 160)"

definition is_digit :: "char \<Rightarrow> bool" where
  "is_digit c = (let n = (of_char c :: nat) in 48 \<le> n \<and> n \<le> 57)"

definition to_lower :: "char \<Rightarrow> char" where
  "to_lower c =
     (let n = (of_char c :: nat)
      in if (65 \<le> n \<and> n \<le> 90) \<or> (192 \<le> n \<and> n \<le> 222 \<and> n \<noteq> 215)
         then char_of (n + 32) else c)"

text \<open>
  Upper casing of a single character, as \<^verbatim>\<open>str.title\<close> applies it to the first letter of
  a word. The three letters of Latin-1 whose upper case lies outside the range (181, 223
  and 255) are left as they are; the program only ever title-cases a capture of
  \<^verbatim>\<open>(High|Medium|Low)\<close>, which holds none of them.
\<close>

definition to_upper :: "char \<Rightarrow> char" where
  "to_upper c =
     (let n = (of_char c :: nat)
      in if (97 \<le> n \<and> n \<le> 122) \<or> (224 \<le> n \<and> n \<le> 254 \<and> n \<noteq> 247)
         then char_of (n - 32) else c)"

definition is_cased :: "char \<Rightarrow> bool" where
  "is_cased c =
     (let n = (of_char c :: nat)
      in (65 \<le> n \<and> n \<le> 90) \<or> (97 \<le> n \<and> n \<le> 122) \<or> n = 170 \<or> n = 181 \<or> n = 186
         \<or> (192 \<le> n \<and> n \<le> 214) \<or> (216 \<le> n \<and> n \<le> 246) \<or> 248 \<le> n)"

text \<open>\<^verbatim>\<open>str.lower\<close>.\<close>

definition lower :: "string \<Rightarrow> string" where
  "lower s = map to_lower s"

text \<open>
  \<^verbatim>\<open>str.title\<close>: a character that follows a cased character is lower-cased, any other
  character is upper-cased. The flag is whether the previous character was cased.
\<close>

fun title_from :: "bool \<Rightarrow> string \<Rightarrow> string" where
  "title_from prev [] = []"
| "title_from prev (c # cs) =
     (if prev then to_lower c else to_upper c) # title_from (is_cased c) cs"

definition title :: "string \<Rightarrow> string" where
  "title s = title_from False s"

text \<open>\<^verbatim>\<open>str.strip\<close> without an argument removes white space at both ends.\<close>

definition strip :: "string \<Rightarrow> string" where
  "strip s = rev (dropWhile is_space (rev (dropWhile is_space s)))"


section \<open>Regular expressions, as \<^verbatim>\<open>re.search\<close> with \<^verbatim>\<open>re.IGNORECASE\<close> runs them\<close>

text \<open>
  The six patterns of the program are built from literal text, the classes \<^verbatim>\<open>\s\<close>,
  \<^verbatim>\<open>\d\<close>, \<^verbatim>\<open>[\d.]\<close> and \<^verbatim>\<open>.\<close> under the repetitions \<^verbatim>\<open>*\<close>, \<^verbatim>\<open>+\<close> and \<^verbatim>\<open>*?\<close>,
  alternation, and one capturing group.
\<close>

datatype cclass = Space | Digit | Digit_or_Dot | Any_Char

fun in_class :: "cclass \<Rightarrow> char \<Rightarrow> bool" where
  "in_class Space c = is_space c"
| "in_class Digit c = is_digit c"
| "in_class Digit_or_Dot c = (is_digit c \<or> c = CHR ''.'')"
| "in_class Any_Char c = (c \<noteq> CHR 0x0A)"

datatype regex =
    Lit string
  | Star cclass
  | Plus cclass
  | Lazy_Star cclass
  | Seq regex regex
  | Alt regex regex
  | Group regex

text \<open>
  A literal matches at the start of the text when the characters agree after lower
  casing (\<^verbatim>\<open>re.IGNORECASE\<close>); the result is the text that remains.
\<close>

fun strip_ci :: "string \<Rightarrow> string \<Rightarrow> string option" where
  "strip_ci [] s = Some s"
| "strip_ci (p # ps) [] = None"
| "strip_ci (p # ps) (x # xs) =
     (if to_lower x = to_lower p then strip_ci ps xs else None)"

text \<open>
  The texts that can remain after a repetition of a class, in the order in which the
  backtracking matcher tries them: the greedy repetition gives up characters one at a
  time from the longest run, the lazy one takes them up one at a time from none.
\<close>

fun greedy :: "cclass \<Rightarrow> string \<Rightarrow> string list" where
  "greedy cl [] = [[]]"
| "greedy cl (x # xs) = (if in_class cl x then greedy cl xs @ [x # xs] else [x # xs])"

fun lazy :: "cclass \<Rightarrow> string \<Rightarrow> string list" where
  "lazy cl [] = [[]]"
| "lazy cl (x # xs) = (x # xs) # (if in_class cl x then lazy cl xs else [])"

text \<open>
  All the ways a pattern matches at the start of a text, in the matcher's order of
  preference. Each is the text that remains with the content of group 1 (\<open>None\<close> while
  the group has not taken part).
\<close>

fun matches :: "regex \<Rightarrow> string \<Rightarrow> string option \<Rightarrow> (string \<times> string option) list" where
  "matches (Lit l) s g = (case strip_ci l s of None \<Rightarrow> [] | Some r \<Rightarrow> [(r, g)])"
| "matches (Star cl) s g = map (\<lambda>r. (r, g)) (greedy cl s)"
| "matches (Plus cl) s g =
     (case s of [] \<Rightarrow> []
      | x # xs \<Rightarrow> if in_class cl x then map (\<lambda>r. (r, g)) (greedy cl xs) else [])"
| "matches (Lazy_Star cl) s g = map (\<lambda>r. (r, g)) (lazy cl s)"
| "matches (Seq a b) s g = concat (map (\<lambda>(r, g'). matches b r g') (matches a s g))"
| "matches (Alt a b) s g = matches a s g @ matches b s g"
| "matches (Group a) s g =
     map (\<lambda>(r, _). (r, Some (take (length s - length r) s))) (matches a s g)"

text \<open>
  \<^verbatim>\<open>re.search\<close>: the first match at the leftmost position that has one. The result is
  \<open>None\<close> when the pattern occurs nowhere, and otherwise what \<^verbatim>\<open>m.group(1)\<close> gives.
\<close>

fun search :: "regex \<Rightarrow> string \<Rightarrow> string option option" where
  "search r [] = (case matches r [] None of [] \<Rightarrow> None | (_, g) # _ \<Rightarrow> Some g)"
| "search r (x # xs) =
     (case matches r (x # xs) None of [] \<Rightarrow> search r xs | (_, g) # _ \<Rightarrow> Some g)"

fun seqs :: "regex list \<Rightarrow> regex" where
  "seqs [] = Lit []"
| "seqs [r] = r"
| "seqs (r # rs) = Seq r (seqs rs)"

text \<open>The patterns of \<^verbatim>\<open>parse_network_quality\<close>, in the order of the source.\<close>

definition pat_down :: regex where
  \<comment> \<open>\<^verbatim>\<open>Downlink\s+capacity:\s*([\d.]+)\<close>\<close>
  "pat_down = seqs [Lit ''Downlink'', Plus Space, Lit ''capacity:'', Star Space,
                    Group (Plus Digit_or_Dot)]"

definition pat_up :: regex where
  \<comment> \<open>\<^verbatim>\<open>Uplink\s+capacity:\s*([\d.]+)\<close>\<close>
  "pat_up = seqs [Lit ''Uplink'', Plus Space, Lit ''capacity:'', Star Space,
                  Group (Plus Digit_or_Dot)]"

definition pat_latency :: regex where
  \<comment> \<open>\<^verbatim>\<open>Idle\s+Latency:\s*([\d.]+)\s*(?:ms|milliseconds)\<close>\<close>
  "pat_latency = seqs [Lit ''Idle'', Plus Space, Lit ''Latency:'', Star Space,
                       Group (Plus Digit_or_Dot), Star Space,
                       Alt (Lit ''ms'') (Lit ''milliseconds'')]"

definition pat_idle_rpm :: regex where
  \<comment> \<open>\<^verbatim>\<open>Idle\s+Latency:.*?\|\s*(\d+)\s*RPM\<close>\<close>
  "pat_idle_rpm = seqs [Lit ''Idle'', Plus Space, Lit ''Latency:'', Lazy_Star Any_Char,
                        Lit ''|'', Star Space, Group (Plus Digit), Star Space, Lit ''RPM'']"

definition pat_resp_label :: regex where
  \<comment> \<open>\<^verbatim>\<open>Responsiveness:\s*(High|Medium|Low)\<close>\<close>
  "pat_resp_label = seqs [Lit ''Responsiveness:'', Star Space,
                          Group (Alt (Lit ''High'') (Alt (Lit ''Medium'') (Lit ''Low'')))]"

definition pat_resp_rpm :: regex where
  \<comment> \<open>\<^verbatim>\<open>Responsiveness:.*?(\d+)\s*RPM\<close>\<close>
  "pat_resp_rpm = seqs [Lit ''Responsiveness:'', Lazy_Star Any_Char, Group (Plus Digit),
                        Star Space, Lit ''RPM'']"


section \<open>Values and conversions\<close>

text \<open>
  A Python \<^verbatim>\<open>float\<close> is a binary64 number: a finite one is a rational, the others are
  the two infinities and not-a-number. A zero carries no sign in this model. Comparison
  with an integer constant is exact, and false whenever the float is not a number.
\<close>

datatype pyfloat = Fin rat | PInf | NInf | NaN

fun flt_lt :: "pyfloat \<Rightarrow> int \<Rightarrow> bool" where
  "flt_lt (Fin v) k = (v < of_int k)"
| "flt_lt PInf k = False"
| "flt_lt NInf k = True"
| "flt_lt NaN k = False"

fun flt_le :: "pyfloat \<Rightarrow> int \<Rightarrow> bool" where
  "flt_le (Fin v) k = (v \<le> of_int k)"
| "flt_le PInf k = False"
| "flt_le NInf k = True"
| "flt_le NaN k = False"

fun flt_gt :: "pyfloat \<Rightarrow> int \<Rightarrow> bool" where
  "flt_gt (Fin v) k = (of_int k < v)"
| "flt_gt PInf k = True"
| "flt_gt NInf k = False"
| "flt_gt NaN k = False"

fun flt_ge :: "pyfloat \<Rightarrow> int \<Rightarrow> bool" where
  "flt_ge (Fin v) k = (of_int k \<le> v)"
| "flt_ge PInf k = True"
| "flt_ge NInf k = False"
| "flt_ge NaN k = False"

text \<open>The exceptions that the modelled part of the program can meet.\<close>

datatype exn =
    ValueError | TypeError | AttributeError | FileNotFoundError | PermissionError | OSError
  | URLError | HTTPError | TimeoutError | UnicodeDecodeError

text \<open>
  Rounding of a non-negative rational to the nearest binary64 number, ties to the even
  mantissa: \<open>ilog2 q\<close> is the exponent of the power of two at or below \<open>q\<close>, numbers
  below \<open>pow2 (- 1022)\<close> share the spacing of the smallest normal ones, and a result of
  \<open>pow2 1024\<close> or more is infinite. \<open>bitlen n\<close> is the number of binary digits of \<open>n\<close>.
\<close>

function bitlen :: "int \<Rightarrow> int" where
  "bitlen n = (if n \<le> 0 then 0 else 1 + bitlen (n div 2))"
  by pat_completeness auto
termination
  by (relation "measure nat") auto

definition pow2 :: "int \<Rightarrow> rat" where
  "pow2 k = (if 0 \<le> k then 2 ^ nat k else 1 / 2 ^ nat (- k))"

definition ilog2 :: "rat \<Rightarrow> int" where
  "ilog2 q =
     (let (a, b) = quotient_of q;
          k = bitlen a - bitlen b
      in if pow2 k \<le> q then k else k - 1)"

definition round_half_even :: "rat \<Rightarrow> int" where
  "round_half_even q =
     (let f = \<lfloor>q\<rfloor>; d = q - of_int f
      in if d < 1 / 2 then f else if 1 / 2 < d then f + 1
         else if even f then f else f + 1)"

definition binary64 :: "rat \<Rightarrow> pyfloat" where
  "binary64 q =
     (if q = 0 then Fin 0
      else let e = max (ilog2 q) (- 1022);
               u = pow2 (e - 52);
               v = of_int (round_half_even (q / u)) * u
           in if pow2 1024 \<le> v then PInf else Fin v)"

text \<open>The number that a string of decimal digits denotes.\<close>

definition digit_val :: "char \<Rightarrow> int" where
  "digit_val c = of_char c - 48"

definition int_of_digits :: "string \<Rightarrow> int" where
  "int_of_digits s = foldl (\<lambda>n c. 10 * n + digit_val c) 0 s"

text \<open>
  \<^verbatim>\<open>float(s)\<close> on the strings that reach it, the captures of \<^verbatim>\<open>[\d.]+\<close>: digits with
  at most one point and at least one digit are read as a decimal and rounded; any other
  string of digits and points raises \<^verbatim>\<open>ValueError\<close>.
\<close>

definition float_of_str :: "string \<Rightarrow> exn + pyfloat" where
  "float_of_str s =
     (let ip = takeWhile is_digit s; rest = dropWhile is_digit s
      in case rest of
           [] \<Rightarrow> if ip = [] then Inl ValueError
                 else Inr (binary64 (of_int (int_of_digits ip)))
         | c # fp \<Rightarrow>
             if c = CHR ''.'' \<and> list_all is_digit fp \<and> \<not> (ip = [] \<and> fp = [])
             then Inr (binary64 (of_int (int_of_digits ip)
                                 + of_int (int_of_digits fp) / 10 ^ length fp))
             else Inl ValueError)"

text \<open>
  \<^verbatim>\<open>int(s)\<close> on the strings that reach it, the captures of \<^verbatim>\<open>\d+\<close>. CPython refuses a
  decimal string of more than \<^verbatim>\<open>sys.get_int_max_str_digits()\<close> digits, 4300 unless changed,
  with \<^verbatim>\<open>ValueError\<close>.
\<close>

definition int_max_str_digits :: nat where
  "int_max_str_digits = 4300"

definition int_of_str :: "string \<Rightarrow> exn + int" where
  "int_of_str s =
     (if s \<noteq> [] \<and> list_all is_digit s \<and> length s \<le> int_max_str_digits
      then Inr (int_of_digits s) else Inl ValueError)"


section \<open>The extractor\<close>

record metrics =
  down :: "pyfloat option"
  up :: "pyfloat option"
  latency_ms :: "pyfloat option"
  resp_label :: string
  resp_rpm :: "int option"
  idle_rpm :: "int option"

text \<open>
  The three local helpers of \<^verbatim>\<open>parse_network_quality\<close>. Without a match they return
  \<^verbatim>\<open>None\<close>; with one they convert \<^verbatim>\<open>m.group(1)\<close>, and the conversion of a group that
  took no part in the match (\<^verbatim>\<open>None\<close>) raises \<^verbatim>\<open>TypeError\<close> or, for \<^verbatim>\<open>.title()\<close>,
  \<^verbatim>\<open>AttributeError\<close>, which no pattern of the program can cause.
\<close>

definition grab_float :: "regex \<Rightarrow> string \<Rightarrow> exn + pyfloat option" where
  "grab_float pattern text =
     (case search pattern text of
        None \<Rightarrow> Inr None
      | Some None \<Rightarrow> Inl TypeError
      | Some (Some c) \<Rightarrow>
          (case float_of_str c of Inl e \<Rightarrow> Inl e | Inr v \<Rightarrow> Inr (Some v)))"

definition grab_int :: "regex \<Rightarrow> string \<Rightarrow> exn + int option" where
  "grab_int pattern text =
     (case search pattern text of
        None \<Rightarrow> Inr None
      | Some None \<Rightarrow> Inl TypeError
      | Some (Some c) \<Rightarrow>
          (case int_of_str c of Inl e \<Rightarrow> Inl e | Inr n \<Rightarrow> Inr (Some n)))"

definition grab_label :: "regex \<Rightarrow> string \<Rightarrow> exn + string option" where
  "grab_label pattern text =
     (case search pattern text of
        None \<Rightarrow> Inr None
      | Some None \<Rightarrow> Inl AttributeError
      | Some (Some c) \<Rightarrow> Inr (Some (title c)))"

text \<open>\<^verbatim>\<open>x or "Unknown"\<close>: the default replaces \<^verbatim>\<open>None\<close> and the empty string.\<close>

fun or_unknown :: "string option \<Rightarrow> string" where
  "or_unknown None = ''Unknown''"
| "or_unknown (Some l) = (if l = [] then ''Unknown'' else l)"

definition parse_network_quality :: "string \<Rightarrow> exn + metrics" where
  "parse_network_quality text =
     (case grab_float pat_down text of Inl e \<Rightarrow> Inl e | Inr d \<Rightarrow>
     (case grab_float pat_up text of Inl e \<Rightarrow> Inl e | Inr u \<Rightarrow>
     (case grab_float pat_latency text of Inl e \<Rightarrow> Inl e | Inr l \<Rightarrow>
     (case grab_int pat_idle_rpm text of Inl e \<Rightarrow> Inl e | Inr ir \<Rightarrow>
     (case grab_label pat_resp_label text of Inl e \<Rightarrow> Inl e | Inr rl \<Rightarrow>
     (case grab_int pat_resp_rpm text of Inl e \<Rightarrow> Inl e | Inr rr \<Rightarrow>
        Inr \<lparr>down = d, up = u, latency_ms = l, resp_label = or_unknown rl,
             resp_rpm = rr, idle_rpm = ir\<rparr>))))))"


section \<open>The classifiers\<close>

text \<open>
  The three markers lie outside the character range of the model, as do the two glyphs
  that open the printed lines; each is written as the bytes of its UTF-8 encoding. The
  green circle is the specification's "good", the yellow one "caution", the red one
  "poor".
\<close>

definition green :: string where
  "green = [CHR 0xF0, CHR 0x9F, CHR 0x9F, CHR 0xA2]"

definition yellow :: string where
  "yellow = [CHR 0xF0, CHR 0x9F, CHR 0x9F, CHR 0xA1]"

definition red :: string where
  "red = [CHR 0xF0, CHR 0x9F, CHR 0x94, CHR 0xB4]"

definition check_mark :: string where
  "check_mark = [CHR 0xE2, CHR 0x9C, CHR 0x85]"

definition bar_chart :: string where
  "bar_chart = [CHR 0xF0, CHR 0x9F, CHR 0x93, CHR 0x8A]"

fun emoji_for_down :: "pyfloat option \<Rightarrow> string" where
  "emoji_for_down None = red"
| "emoji_for_down (Some x) =
     (if flt_gt x 300 then green else if flt_ge x 100 then yellow else red)"

fun emoji_for_up :: "pyfloat option \<Rightarrow> string" where
  "emoji_for_up None = red"
| "emoji_for_up (Some x) =
     (if flt_gt x 20 then green else if flt_ge x 5 then yellow else red)"

fun emoji_for_latency :: "pyfloat option \<Rightarrow> string" where
  "emoji_for_latency None = red"
| "emoji_for_latency (Some ms) =
     (if flt_lt ms 50 then green else if flt_le ms 150 then yellow else red)"

definition emoji_for_resp :: "string \<Rightarrow> string" where
  "emoji_for_resp label =
     (if lower label = ''high'' then green
      else if lower label = ''medium'' then yellow else red)"


section \<open>Running the command and looking up the address\<close>

text \<open>
  What \<^verbatim>\<open>subprocess.check_output\<close> meets: the command ran and left with a status and
  the text of its two output streams, or it could not be run at all. A status other than
  0 reaches \<^verbatim>\<open>run\<close> as \<^verbatim>\<open>CalledProcessError\<close>, whose \<^verbatim>\<open>output\<close> it returns.
\<close>

datatype process = Exited int string | Not_Run exn

fun run :: "process \<Rightarrow> exn + string" where
  "run (Exited status out) = (if status = 0 then Inr out else Inr out)"
| "run (Not_Run e) = Inl e"

text \<open>
  What \<^verbatim>\<open>urlopen(...).read().decode("utf-8")\<close> meets within \<^verbatim>\<open>get_external_ip\<close>: the
  decoded body, or an exception of class \<^verbatim>\<open>Exception\<close>, a timeout among them.
\<close>

datatype lookup = Body string | Failed exn

fun get_external_ip :: "lookup \<Rightarrow> string" where
  "get_external_ip (Body b) = strip b"
| "get_external_ip (Failed e) = ''N/A''"


section \<open>Formatting\<close>

text \<open>\<^verbatim>\<open>str\<close> of an integer: its decimal digits, after a minus sign if it is negative.\<close>

function digits_of :: "int \<Rightarrow> string" where
  "digits_of n =
     (if n < 10 then [char_of (48 + n)]
      else digits_of (n div 10) @ [char_of (48 + n mod 10)])"
  by pat_completeness auto
termination
  by (relation "measure nat") auto

definition str_of_int :: "int \<Rightarrow> string" where
  "str_of_int n = (if n < 0 then CHR ''-'' # digits_of (- n) else digits_of n)"

text \<open>
  The format \<^verbatim>\<open>.{nd}f\<close>: the value rounded to \<open>nd\<close> decimals, ties to even, and
  written with all of them.
\<close>

definition format_f :: "pyfloat \<Rightarrow> nat \<Rightarrow> string" where
  "format_f x nd =
     (case x of
        Fin v \<Rightarrow>
          (let n = round_half_even (\<bar>v\<bar> * 10 ^ nd);
               fs = digits_of (n mod 10 ^ nd)
           in (if v < 0 then ''-'' else []) @ digits_of (n div 10 ^ nd)
              @ (if nd = 0 then []
                 else ''.'' @ replicate (nd - length fs) CHR ''0'' @ fs))
      | PInf \<Rightarrow> ''inf''
      | NInf \<Rightarrow> ''-inf''
      | NaN \<Rightarrow> ''nan'')"

text \<open>The local \<^verbatim>\<open>fmt\<close> of \<^verbatim>\<open>main\<close>; whatever is not a float is shown as \<^verbatim>\<open>0.000\<close>.\<close>

fun fmt :: "pyfloat option \<Rightarrow> nat \<Rightarrow> string" where
  "fmt (Some x) nd = format_f x nd"
| "fmt None nd = ''0.000''"

text \<open>The f-string of the summary line.\<close>

definition summary :: "metrics \<Rightarrow> string" where
  "summary m =
     bar_chart @ '' Down: '' @ fmt (down m) 3 @ '' Mbps '' @ emoji_for_down (down m)
     @ '' | Up: '' @ fmt (up m) 3 @ '' Mbps '' @ emoji_for_up (up m)
     @ '' | Latency: '' @ fmt (latency_ms m) 3 @ '' ms '' @ emoji_for_latency (latency_ms m)
     @ '' | Resp: '' @ resp_label m @ '' '' @ emoji_for_resp (resp_label m)"

definition header :: "string list" where
  "header = [''Timestamp'', ''Profile'', ''IP'',
             ''Downlink (Mbps)'', ''Uplink (Mbps)'', ''Latency (ms)'',
             ''Responsiveness'', ''Responsiveness RPM'', ''Idle RPM'']"

text \<open>
  The cells of the data row. The two counts are integers in the source, which
  \<^verbatim>\<open>csv.writer\<close> writes with \<^verbatim>\<open>str\<close>.
\<close>

definition row :: "string \<Rightarrow> string \<Rightarrow> string \<Rightarrow> metrics \<Rightarrow> string list" where
  "row timestamp profile ip m =
     [timestamp, profile, ip,
      fmt (down m) 3, fmt (up m) 3, fmt (latency_ms m) 3,
      resp_label m,
      (case resp_rpm m of Some n \<Rightarrow> str_of_int n | None \<Rightarrow> []),
      (case idle_rpm m of Some n \<Rightarrow> str_of_int n | None \<Rightarrow> [])]"


section \<open>The log file\<close>

text \<open>
  \<^verbatim>\<open>csv.writer\<close> with its default dialect: a cell that holds a comma, a double quote, a
  carriage return or a line feed is put between double quotes with its own quotes
  doubled, the cells are joined by commas, and the line ends with carriage return and
  line feed. A row of one empty cell is written as two quotes.
\<close>

definition special :: "char \<Rightarrow> bool" where
  "special c = (c = CHR '','' \<or> c = CHR 0x22 \<or> c = CHR 0x0D \<or> c = CHR 0x0A)"

definition csv_field :: "string \<Rightarrow> string" where
  "csv_field s =
     (if list_ex special s
      then [CHR 0x22] @ concat (map (\<lambda>c. if c = CHR 0x22 then [c, c] else [c]) s) @ [CHR 0x22]
      else s)"

fun join :: "string \<Rightarrow> string list \<Rightarrow> string" where
  "join sep [] = []"
| "join sep [x] = x"
| "join sep (x # y # ys) = x @ sep @ join sep (y # ys)"

definition writerow :: "string list \<Rightarrow> string" where
  "writerow cells =
     (if cells = [[]] then [CHR 0x22, CHR 0x22] else join '','' (map csv_field cells))
     @ [CHR 0x0D, CHR 0x0A]"


section \<open>The program\<close>

text \<open>
  What one run is given: the command line, what became of the measurement command and
  of the lookup, and the formatted local time. What it acts on: the lines printed so
  far, and the content of \<^verbatim>\<open>vpn_performance.csv\<close>, which is \<open>None\<close> while the file does
  not exist. A file that exists can be read and appended to.
\<close>

record inputs =
  argv :: "string list"
  networkQuality :: process
  ipify :: lookup
  now :: string

record world =
  stdout :: "string list"
  csv :: "string option"

definition print :: "string \<Rightarrow> world \<Rightarrow> world" where
  "print line w = w\<lparr>stdout := stdout w @ [line]\<rparr>"

text \<open>The last lines of \<^verbatim>\<open>main\<close>: the probe for the file, then the append.\<close>

definition log_row :: "string list \<Rightarrow> world \<Rightarrow> world" where
  "log_row r w =
     (let write_header = (csv w = None);
          old = (case csv w of None \<Rightarrow> [] | Some c \<Rightarrow> c)
      in w\<lparr>csv := Some (old @ (if write_header then writerow header else [])
                          @ writerow r)\<rparr>)"

text \<open>
  A run ends with the exception that stopped it, if any, and the world as it left it.
\<close>

definition main :: "inputs \<Rightarrow> world \<Rightarrow> exn option \<times> world" where
  "main i w =
     (let profile = (if 1 < length (argv i) then argv i ! 1 else ''Unknown'');
          w1 = print (''Running VPN performance test for profile: '' @ profile) w;
          w2 = print ''-------------------------------------------'' w1
      in case run (networkQuality i) of
           Inl e \<Rightarrow> (Some e, w2)
         | Inr raw \<Rightarrow>
            (case parse_network_quality raw of
               Inl e \<Rightarrow> (Some e, w2)
             | Inr m \<Rightarrow>
                (let ip = get_external_ip (ipify i);
                     w3 = print (check_mark @ '' Logged results to ./vpn_performance.csv'') w2;
                     w4 = print (summary m) w3
                 in (None, log_row (row (now i) profile ip m) w4))))"



section \<open>Notions for stating what a run does\<close>

text \<open>
  The measurement of a run: the metrics parsed from the command's output, or the
  exception that stops the run before anything is logged.
\<close>

definition outcome :: "inputs \<Rightarrow> exn + metrics" where
  "outcome i =
     (case run (networkQuality i) of Inl e \<Rightarrow> Inl e | Inr raw \<Rightarrow> parse_network_quality raw)"


text \<open>The row that a run logs for the metrics \<open>m\<close>, and the text it adds to the file.\<close>

definition data_row :: "inputs \<Rightarrow> metrics \<Rightarrow> string list" where
  "data_row i m =
     row (now i) (if 1 < length (argv i) then argv i ! 1 else ''Unknown'')
       (get_external_ip (ipify i)) m"



text \<open>Two sample runs and a world without the log file.\<close>

definition fresh :: world where
  "fresh = \<lparr>stdout = [], csv = None\<rparr>"


definition sample_run_2 :: inputs where
  "sample_run_2 =
     \<lparr>argv = [''vpn_benchmark.py''],
      networkQuality = Exited 1 ''networkQuality: command failed'',
      ipify = Body ''10.0.0.1'',
      now = ''2025-01-01 10:05:00''\<rparr>"

definition no_metrics :: metrics where
  "no_metrics =
     \<lparr>down = None, up = None, latency_ms = None, resp_label = ''Unknown'',
      resp_rpm = None, idle_rpm = None\<rparr>"


section \<open>Facts about the matcher and the conversions\<close>


































section \<open>Facts about the program\<close>

lemma rev_drop_take:
  "rev (dropWhile P xs) @ rev (takeWhile P xs) = rev xs"
  by (metis rev_append takeWhile_dropWhile_id)

lemma strip_spec:
  "\<exists>pre suf. b = pre @ strip b @ suf \<and> list_all is_space pre \<and> list_all is_space suf"
proof -
  let ?d = "dropWhile is_space b"
  have "b = takeWhile is_space b @ ?d" by simp
  moreover have "?d = strip b @ rev (takeWhile is_space (rev ?d))"
    using rev_drop_take [of is_space "rev ?d"] by (simp add: strip_def)
  moreover have "list_all is_space (takeWhile is_space b)"
    by (auto simp: list_all_iff dest: set_takeWhileD)
  moreover have "list_all is_space (rev (takeWhile is_space (rev ?d)))"
    by (auto simp: list_all_iff dest: set_takeWhileD)
  ultimately show ?thesis by metis
qed

lemma strip_ends:
  assumes "strip b \<noteq> []"
  shows "\<not> is_space (hd (strip b)) \<and> \<not> is_space (last (strip b))"
proof -
  let ?d = "dropWhile is_space b"
  let ?e = "dropWhile is_space (rev ?d)"
  from assms have e: "?e \<noteq> []" by (simp add: strip_def)
  have d: "?d \<noteq> []"
  proof
    assume "?d = []"
    then have "?e = []" by (simp only: rev.simps dropWhile.simps)
    with e show False ..
  qed
  have "last (strip b) = hd ?e" using e by (simp add: strip_def last_rev)
  moreover have "\<not> is_space (hd ?e)" using e by (rule hd_dropWhile)
  moreover have "hd (strip b) = last ?e" using e by (simp add: strip_def hd_rev)
  moreover have "last ?e = last (rev ?d)"
  proof -
    have "last (takeWhile is_space (rev ?d) @ ?e) = last ?e" using e by (rule last_appendR)
    then show ?thesis by (simp only: takeWhile_dropWhile_id)
  qed
  moreover have "last (rev ?d) = hd ?d" using d by (simp add: last_rev)
  moreover have "\<not> is_space (hd ?d)" using d by (rule hd_dropWhile)
  ultimately show ?thesis by simp
qed


lemma main_logged:
  assumes "outcome i = Inr m"
  shows "main i w = (None, log_row (data_row i m)
      (print (summary m)
        (print (check_mark @ '' Logged results to ./vpn_performance.csv'')
          (print ''-------------------------------------------''
            (print (''Running VPN performance test for profile: ''
                     @ (if 1 < length (argv i) then argv i ! 1 else ''Unknown'')) w)))))"
  using assms by (auto simp: main_def outcome_def data_row_def Let_def split: sum.splits)

lemma csv_print [simp]: "csv (print l w) = csv w"
  by (simp add: print_def)

lemma csv_log_row:
  "csv (log_row r w) =
     Some (case csv w of None \<Rightarrow> writerow header @ writerow r | Some c \<Rightarrow> c @ writerow r)"
  by (simp add: log_row_def Let_def split: option.splits)






section \<open>The extractor returns what it finds\<close>







section \<open>The classifiers' thresholds\<close>

lemma markers_distinct: "green \<noteq> yellow \<and> green \<noteq> red \<and> yellow \<noteq> red"
  by (simp add: green_def yellow_def red_def)

lemma flt_between: "flt_ge v lo \<Longrightarrow> (\<not> flt_gt v hi) = flt_le v hi"
  by (cases v) auto

lemma flt_between': "\<not> flt_lt v lo \<Longrightarrow> flt_le v hi = (flt_ge v lo \<and> flt_le v hi)"
  by (cases v) auto

text \<open>
  C2. The downlink classifier gives the green marker (good) above 300, the yellow one
  (caution) from 100 to 300, and the red one (poor) otherwise, an absent value included;
  350 is good, 150 caution, 50 poor, and \<open>None\<close> poor. The three markers differ.
\<close>

theorem emoji_for_down_tiers:
  "emoji_for_down x =
     (case x of
        None \<Rightarrow> red
      | Some v \<Rightarrow> if flt_gt v 300 then green
                  else if flt_ge v 100 \<and> flt_le v 300 then yellow else red)
   \<and> emoji_for_down (Some (Fin 350)) = green
   \<and> emoji_for_down (Some (Fin 150)) = yellow
   \<and> emoji_for_down (Some (Fin 50)) = red
   \<and> emoji_for_down None = red
   \<and> green \<noteq> yellow \<and> green \<noteq> red \<and> yellow \<noteq> red"
proof -
  have "emoji_for_down x =
     (case x of
        None \<Rightarrow> red
      | Some v \<Rightarrow> if flt_gt v 300 then green
                  else if flt_ge v 100 \<and> flt_le v 300 then yellow else red)"
  proof (cases x)
    case None
    then show ?thesis by simp
  next
    case (Some v)
    then show ?thesis using flt_between [of v 100 300] by auto
  qed
  then show ?thesis using markers_distinct by simp
qed


section \<open>The log file\<close>







section \<open>A command that fails\<close>

lemma parse_no_match:
  assumes "search pat_down text = None" and "search pat_up text = None"
    and "search pat_latency text = None" and "search pat_idle_rpm text = None"
    and "search pat_resp_label text = None" and "search pat_resp_rpm text = None"
  shows "parse_network_quality text = Inr no_metrics"
  using assms
  by (simp add: parse_network_quality_def grab_float_def grab_int_def grab_label_def
      no_metrics_def)

lemma failure_text:
  "search pat_down ''networkQuality: command failed'' = None
   \<and> search pat_up ''networkQuality: command failed'' = None
   \<and> search pat_latency ''networkQuality: command failed'' = None
   \<and> search pat_idle_rpm ''networkQuality: command failed'' = None
   \<and> search pat_resp_label ''networkQuality: command failed'' = None
   \<and> search pat_resp_rpm ''networkQuality: command failed'' = None"
  by code_simp




section \<open>Two sample lines\<close>

text \<open>
  C5. From \<^verbatim>\<open>Responsiveness: Medium (208.467 milliseconds | 287 RPM)\<close> the extractor
  returns the label Medium and the responsiveness count 287, and nothing else.
\<close>

theorem responsiveness_sample:
  "parse_network_quality ''Responsiveness: Medium (208.467 milliseconds | 287 RPM)'' =
     Inr \<lparr>down = None, up = None, latency_ms = None, resp_label = ''Medium'',
          resp_rpm = Some 287, idle_rpm = None\<rparr>"
  by code_simp

lemma float_35624: "float_of_str ''35.624'' = Inr (binary64 (35624 / 1000))"
  by (simp add: float_of_str_def is_digit_def int_of_digits_def digit_val_def)

lemma nearest_35624: "binary64 (35624 / 1000) = Fin (5013632285170205 / 2 ^ 47)"
  by code_simp

lemma idle_latency_searches:
  "search pat_down ''Idle Latency: 35.624 ms'' = None
   \<and> search pat_up ''Idle Latency: 35.624 ms'' = None
   \<and> search pat_latency ''Idle Latency: 35.624 ms'' = Some (Some ''35.624'')
   \<and> search pat_idle_rpm ''Idle Latency: 35.624 ms'' = None
   \<and> search pat_resp_label ''Idle Latency: 35.624 ms'' = None
   \<and> search pat_resp_rpm ''Idle Latency: 35.624 ms'' = None"
  by code_simp

text \<open>
  C6. From \<^verbatim>\<open>Idle Latency: 35.624 ms\<close> the extractor returns the latency 35.624, that
  is the binary64 number nearest to it (\<^verbatim>\<open>0x1.1cfdf3b645a1dp+5\<close>), and no idle count.
\<close>

theorem idle_latency_sample:
  "parse_network_quality ''Idle Latency: 35.624 ms'' =
     Inr \<lparr>down = None, up = None, latency_ms = Some (binary64 (35624 / 1000)),
          resp_label = ''Unknown'', resp_rpm = None, idle_rpm = None\<rparr>
   \<and> binary64 (35624 / 1000) = Fin (5013632285170205 / 2 ^ 47)"
proof -
  have "parse_network_quality ''Idle Latency: 35.624 ms'' =
     Inr \<lparr>down = None, up = None, latency_ms = Some (binary64 (35624 / 1000)),
          resp_label = ''Unknown'', resp_rpm = None, idle_rpm = None\<rparr>"
    using idle_latency_searches
    by (simp add: parse_network_quality_def grab_float_def grab_int_def grab_label_def
        float_35624)
  then show ?thesis using nearest_35624 by (rule conjI)
qed

text \<open>
  C7. The latency classifier gives the green marker (good) below 50, the yellow one
  (caution) from 50 to 150, and the red one (poor) above 150 and for an absent value.
\<close>

theorem emoji_for_latency_tiers:
  "emoji_for_latency x =
     (case x of
        None \<Rightarrow> red
      | Some ms \<Rightarrow> if flt_lt ms 50 then green
                   else if flt_ge ms 50 \<and> flt_le ms 150 then yellow else red)
   \<and> (flt_gt ms 150 \<longrightarrow> emoji_for_latency (Some ms) = red)
   \<and> green \<noteq> yellow \<and> green \<noteq> red \<and> yellow \<noteq> red"
proof -
  have "emoji_for_latency x =
     (case x of
        None \<Rightarrow> red
      | Some ms \<Rightarrow> if flt_lt ms 50 then green
                   else if flt_ge ms 50 \<and> flt_le ms 150 then yellow else red)"
  proof (cases x)
    case None
    then show ?thesis by simp
  next
    case (Some v)
    then show ?thesis using flt_between' [of v 50 150] by auto
  qed
  moreover have "flt_gt ms 150 \<longrightarrow> emoji_for_latency (Some ms) = red"
    by (cases ms) auto
  ultimately show ?thesis using markers_distinct by simp
qed

theorem emoji_for_latency_tiers_witness:
  "flt_gt (Fin 200) 150
   \<and> emoji_for_latency (Some (Fin 200)) = red
   \<and> emoji_for_latency (Some (Fin 20)) = green
   \<and> emoji_for_latency (Some (Fin 50)) = yellow
   \<and> emoji_for_latency (Some (Fin 150)) = yellow
   \<and> emoji_for_latency None = red"
  using emoji_for_latency_tiers [of "Some (Fin 20)" "Fin 200"]
    emoji_for_latency_tiers [of "Some (Fin 50)" "Fin 200"]
    emoji_for_latency_tiers [of "Some (Fin 150)" "Fin 200"]
    emoji_for_latency_tiers [of None "Fin 200"]
  by simp


section \<open>The address lookup\<close>

text \<open>
  C8. Whatever exception the lookup meets, a timeout among them, the result is the text
  \<^verbatim>\<open>N/A\<close>; otherwise it is the body without the white space around it: the body is the
  result between two runs of white space, and a result that is not empty neither begins
  nor ends with white space.
\<close>

theorem get_external_ip_sentinel:
  "get_external_ip (Failed e) = ''N/A''
   \<and> get_external_ip (Body b) = strip b
   \<and> (\<exists>pre suf. b = pre @ get_external_ip (Body b) @ suf
                 \<and> list_all is_space pre \<and> list_all is_space suf)
   \<and> (get_external_ip (Body b) \<noteq> [] \<longrightarrow>
        \<not> is_space (hd (get_external_ip (Body b)))
        \<and> \<not> is_space (last (get_external_ip (Body b))))"
  using strip_spec [of b] strip_ends [of b] by simp

lemma ip_eval:
  "get_external_ip (Body [CHR '' '', CHR ''1'', CHR ''.'', CHR ''2'', CHR 0x0A]) = ''1.2''"
  by code_simp

theorem get_external_ip_sentinel_witness:
  "get_external_ip (Failed TimeoutError) = ''N/A''
   \<and> get_external_ip (Body [CHR '' '', CHR ''1'', CHR ''.'', CHR ''2'', CHR 0x0A]) = ''1.2''
   \<and> \<not> is_space (hd (get_external_ip (Body [CHR '' '', CHR ''1'', CHR ''.'', CHR ''2'', CHR 0x0A])))"
  using get_external_ip_sentinel [of TimeoutError "[CHR '' '', CHR ''1'', CHR ''.'', CHR ''2'', CHR 0x0A]"]
    ip_eval by simp



section \<open>How absent values are shown\<close>

lemma sample_run_2_outcome: "outcome sample_run_2 = Inr no_metrics"
  using failure_text by (simp add: outcome_def sample_run_2_def parse_no_match)

text \<open>
  C9. An absent downlink, uplink or latency is shown as \<^verbatim>\<open>0.000\<close>, in the summary line
  and in its cell of the row; an absent responsiveness or idle count is an empty cell.
  The summary line and the row are the ones that a run prints last and appends to the
  log file.
\<close>

theorem absent_values_shown:
  "(down m = None \<longrightarrow>
      row ts p ip m ! 3 = ''0.000''
      \<and> (\<exists>rest. summary m = bar_chart @ '' Down: 0.000 Mbps '' @ rest))
   \<and> (up m = None \<longrightarrow>
      row ts p ip m ! 4 = ''0.000''
      \<and> (\<exists>rest. summary m =
            bar_chart @ '' Down: '' @ fmt (down m) 3 @ '' Mbps '' @ emoji_for_down (down m)
            @ '' | Up: 0.000 Mbps '' @ rest))
   \<and> (latency_ms m = None \<longrightarrow>
      row ts p ip m ! 5 = ''0.000''
      \<and> (\<exists>rest. summary m =
            bar_chart @ '' Down: '' @ fmt (down m) 3 @ '' Mbps '' @ emoji_for_down (down m)
            @ '' | Up: '' @ fmt (up m) 3 @ '' Mbps '' @ emoji_for_up (up m)
            @ '' | Latency: 0.000 ms '' @ rest))
   \<and> (resp_rpm m = None \<longrightarrow> row ts p ip m ! 7 = [])
   \<and> (idle_rpm m = None \<longrightarrow> row ts p ip m ! 8 = [])
   \<and> (outcome i = Inr m \<longrightarrow>
        last (stdout (snd (main i w))) = summary m
        \<and> (\<exists>old. csv (snd (main i w)) = Some (old @ writerow (data_row i m))))"
proof (intro conjI impI)
  assume "outcome i = Inr m"
  then show "last (stdout (snd (main i w))) = summary m"
    by (simp add: main_logged log_row_def print_def Let_def)
  show "\<exists>old. csv (snd (main i w)) = Some (old @ writerow (data_row i m))"
    using \<open>outcome i = Inr m\<close>
    by (cases "csv w") (simp_all add: main_logged csv_log_row)
qed (simp_all add: row_def summary_def)

theorem absent_values_shown_witness:
  "down no_metrics = None \<and> up no_metrics = None \<and> latency_ms no_metrics = None
   \<and> resp_rpm no_metrics = None \<and> idle_rpm no_metrics = None
   \<and> outcome sample_run_2 = Inr no_metrics
   \<and> row ''2025-01-01 10:05:00'' ''Unknown'' ''10.0.0.1'' no_metrics =
       [''2025-01-01 10:05:00'', ''Unknown'', ''10.0.0.1'', ''0.000'', ''0.000'', ''0.000'',
        ''Unknown'', [], []]
   \<and> last (stdout (snd (main sample_run_2 fresh))) = summary no_metrics"
  using absent_values_shown [of no_metrics "''2025-01-01 10:05:00''" "''Unknown''"
      "''10.0.0.1''" sample_run_2 fresh]
    sample_run_2_outcome
  by (simp add: no_metrics_def row_def)


section \<open>A capture that is not a number\<close>

text \<open>
  C10. The extractor is not total: in \<^verbatim>\<open>Downlink capacity: . Mbps\<close> the downlink pattern
  matches with a lone point as its capture, the conversion of the point raises
  \<^verbatim>\<open>ValueError\<close>, and so does the extractor.
\<close>

theorem parse_network_quality_not_total:
  "search pat_down ''Downlink capacity: . Mbps'' = Some (Some ''.'')
   \<and> float_of_str ''.'' = Inl ValueError
   \<and> parse_network_quality ''Downlink capacity: . Mbps'' = Inl ValueError"
  by code_simp

end
